theory Spec2Isabelle
  imports Main
begin

section \<open>Data model\<close>

text \<open>
  A chat message is the Python dictionary \<open>{"role": ..., "content": ...}\<close>. The role is
  kept as a string, as in \<^verbatim>\<open>app.py\<close>: nothing in the code restricts it to
  \<open>user\<close> and \<open>assistant\<close>.
\<close>

record message =
  role :: string
  content :: string

text \<open>Values of the fields of a stored document other than the conversation list.\<close>

datatype fsval = FStr string | FInt int | FBool bool | FNull

text \<open>
  A document of the collection \<open>conversations\<close>, in its dictionary form
  (\<^verbatim>\<open>doc.to_dict()\<close>): the field \<open>conversation\<close>, which may be missing and
  otherwise holds a list of messages, and the remaining fields by name.
\<close>

record document =
  conversation_field :: "message list option"
  other_fields :: "string \<rightharpoonup> fsval"

text \<open>The collection: document identifier to document; \<open>None\<close> when no record exists.\<close>

type_synonym store = "string \<rightharpoonup> document"

datatype error =
    FileNotFoundError
  | JSONDecodeError
  | KeyError string
  | ValueError string
  | IndexError
  | AttributeError string
  | VendorError

section \<open>The document store client\<close>

text \<open>
  \<^verbatim>\<open>doc_ref.set(data, merge=...)\<close>: without \<open>merge\<close> the record is replaced by
  \<open>data\<close>; with \<open>merge\<close> the fields of \<open>data\<close> are written into the existing record
  and its other fields stay. On a missing record both create it.
\<close>

definition merge_document :: "document \<Rightarrow> document \<Rightarrow> document" where
  "merge_document old data =
     \<lparr>conversation_field =
        (case conversation_field data of
           None \<Rightarrow> conversation_field old
         | Some c \<Rightarrow> Some c),
      other_fields = other_fields old ++ other_fields data\<rparr>"

definition doc_set :: "store \<Rightarrow> string \<Rightarrow> document \<Rightarrow> bool \<Rightarrow> store" where
  "doc_set db key data merge =
     (case db key of
        None \<Rightarrow> db(key \<mapsto> data)
      | Some old \<Rightarrow> db(key \<mapsto> (if merge then merge_document old data else data)))"

section \<open>Firestore helper functions\<close>

text \<open>
  \<^verbatim>\<open>get_conversation(user_id)\<close> (lines 29-35). The only store operation is the
  read \<^verbatim>\<open>doc_ref.get()\<close>; the store is returned as it was received.
\<close>

definition get_conversation :: "store \<Rightarrow> string \<Rightarrow> message list \<times> store" where
  "get_conversation db uid =
     (let doc = db uid;
          conv = (case doc of
                    Some d \<Rightarrow> (case conversation_field d of Some c \<Rightarrow> c | None \<Rightarrow> [])
                  | None \<Rightarrow> [])
      in (conv, db))"

text \<open>\<^verbatim>\<open>update_conversation_messages(user_id, new_messages)\<close> (lines 37-46).\<close>

definition update_conversation_messages :: "store \<Rightarrow> string \<Rightarrow> message list \<Rightarrow> store" where
  "update_conversation_messages db uid new_messages =
     (let doc = db uid;
          conv = (case doc of
                    Some d \<Rightarrow> (case conversation_field d of Some c \<Rightarrow> c | None \<Rightarrow> [])
                  | None \<Rightarrow> []);
          conv' = conv @ new_messages
      in doc_set db uid \<lparr>conversation_field = Some conv', other_fields = Map.empty\<rparr> True)"

section \<open>The LLM response function\<close>

text \<open>
  The file \<^verbatim>\<open>prompts.json\<close> as \<^verbatim>\<open>open\<close> and \<^verbatim>\<open>json.load\<close> see it: absent,
  not parseable, or a JSON object with string fields.
\<close>

datatype resource = NoFile | NotJson | JsonObject "string \<rightharpoonup> string"

text \<open>The two request shapes, with the keyword arguments of the vendor calls.\<close>

datatype request =
    OpenAI_ChatCompletion string "message list" nat
  | Anthropic_Messages string nat "message list" string

text \<open>
  A vendor answers a request with an error, or with the texts of the reply's choices
  (OpenAI) or content blocks (Anthropic), in order.
\<close>

type_synonym vendor = "request \<Rightarrow> error + string list"

record world =
  prompts_json :: resource
  db :: store
  sent :: "request list"

text \<open>Lines 54-56: the prompt is read from the file inside the function body.\<close>

definition load_system_prompt :: "resource \<Rightarrow> error + string" where
  "load_system_prompt r =
     (case r of
        NoFile \<Rightarrow> Inl FileNotFoundError
      | NotJson \<Rightarrow> Inl JSONDecodeError
      | JsonObject prompts \<Rightarrow>
          (case prompts ''system_prompt'' of
             None \<Rightarrow> Inl (KeyError ''system_prompt'')
           | Some p \<Rightarrow> Inr p))"

text \<open>
  \<^verbatim>\<open>str.strip()\<close>. A \<open>char\<close> stands for a code point below 256, and
  \<open>is_space\<close> is \<^verbatim>\<open>str.isspace()\<close> on these: the code points 9 to 13, 28 to 32,
  133 (U+0085) and 160 (U+00A0).
\<close>

definition is_space :: "char \<Rightarrow> bool" where
  "is_space c =
     (let n = of_char c :: nat
      in (9 \<le> n \<and> n \<le> 13) \<or> (28 \<le> n \<and> n \<le> 32) \<or> n = 133 \<or> n = 160)"

definition strip :: "string \<Rightarrow> string" where
  "strip s = rev (dropWhile is_space (rev (dropWhile is_space s)))"

text \<open>\<^verbatim>\<open>response.choices[0]...\<close> and \<^verbatim>\<open>response.content[0].text\<close>, then \<open>.strip()\<close>.\<close>

definition first_text :: "string list \<Rightarrow> error + string" where
  "first_text texts = (case texts of [] \<Rightarrow> Inl IndexError | t # _ \<Rightarrow> Inr (strip t))"

text \<open>The loop of lines 73-78, with the list \<open>messages\<close> as accumulator.\<close>

fun anthropic_loop :: "message list \<Rightarrow> message list \<Rightarrow> message list" where
  "anthropic_loop messages [] = messages"
| "anthropic_loop messages (msg # rest) =
     (if role msg = ''user'' then
        anthropic_loop (messages @ [\<lparr>role = ''user'', content = content msg\<rparr>]) rest
      else if role msg = ''assistant'' then
        anthropic_loop (messages @ [\<lparr>role = ''assistant'', content = content msg\<rparr>]) rest
      else anthropic_loop messages rest)"

definition openai_messages :: "string \<Rightarrow> message list \<Rightarrow> string \<Rightarrow> message list" where
  "openai_messages system_prompt conversation_history incoming_msg =
     ([\<lparr>role = ''system'', content = system_prompt\<rparr>] @ conversation_history)
       @ [\<lparr>role = ''user'', content = incoming_msg\<rparr>]"

definition anthropic_messages :: "message list \<Rightarrow> string \<Rightarrow> message list" where
  "anthropic_messages conversation_history incoming_msg =
     anthropic_loop [] conversation_history @ [\<lparr>role = ''user'', content = incoming_msg\<rparr>]"

text \<open>Sending a request: it is recorded in \<open>sent\<close>, then the vendor's answer is read.\<close>

definition call_vendor :: "vendor \<Rightarrow> world \<Rightarrow> request \<Rightarrow> (error + string) \<times> world" where
  "call_vendor llm w req =
     (let w' = w\<lparr>sent := sent w @ [req]\<rparr>
      in (case llm req of
            Inl e \<Rightarrow> (Inl e, w')
          | Inr texts \<Rightarrow> (first_text texts, w')))"

text \<open>
  \<^verbatim>\<open>get_llm_response(conversation_history, incoming_msg, provider="anthropic")\<close>
  (lines 49-91). The provider argument is \<open>None\<close> when the caller omits it.
\<close>

definition get_llm_response ::
  "vendor \<Rightarrow> world \<Rightarrow> message list \<Rightarrow> string \<Rightarrow> string option \<Rightarrow> (error + string) \<times> world" where
  "get_llm_response llm w conversation_history incoming_msg provider_arg =
     (let provider = (case provider_arg of None \<Rightarrow> ''anthropic'' | Some p \<Rightarrow> p)
      in case load_system_prompt (prompts_json w) of
           Inl e \<Rightarrow> (Inl e, w)
         | Inr system_prompt \<Rightarrow>
             if provider = ''openai'' then
               call_vendor llm w
                 (OpenAI_ChatCompletion ''gpt-4o''
                    (openai_messages system_prompt conversation_history incoming_msg) 1)
             else if provider = ''anthropic'' then
               call_vendor llm w
                 (Anthropic_Messages ''claude-3-5-sonnet-20241022'' 1000
                    (anthropic_messages conversation_history incoming_msg) system_prompt)
             else (Inl (ValueError (''Unsupported provider: '' @ provider)), w))"

section \<open>The Streamlit application\<close>

text \<open>
  \<^verbatim>\<open>st.session_state\<close>: each of the three attributes is \<open>None\<close> until the script
  assigns it; they survive from one run of the script to the next.
\<close>

record session_state =
  user_id :: "string option"
  conversation :: "message list option"
  user_input_key :: "int option"

text \<open>What the widgets return in one run of the script.\<close>

record ui =
  name_input :: string
  user_input :: string
  send_button :: bool

text \<open>
  How a run of \<^verbatim>\<open>main()\<close> ends: \<^verbatim>\<open>st.stop()\<close>, \<^verbatim>\<open>st.experimental_rerun()\<close>,
  the end of the script, or an exception that nothing catches.
\<close>

datatype outcome = Stopped | Rerun | Finished | Raised error

text \<open>Lines 98-107: ask for the identifier and load the stored conversation.\<close>

definition ask_user_id :: "ui \<Rightarrow> world \<Rightarrow> session_state \<Rightarrow> bool \<times> world \<times> session_state" where
  "ask_user_id u w ss =
     (if user_id ss = None \<or> user_id ss = Some [] then
        (let ss1 = ss\<lparr>user_id := Some (name_input u)\<rparr>
         in if name_input u = [] then (True, w, ss1)
            else (let (conv, db') = get_conversation (db w) (name_input u)
                  in (False, w\<lparr>db := db'\<rparr>, ss1\<lparr>conversation := Some conv\<rparr>)))
      else (False, w, ss))"

text \<open>The condition of line 146, with Python's truth values of strings written out.\<close>

definition send_triggered :: "ui \<Rightarrow> bool" where
  "send_triggered u =
     ((send_button u \<or>
         (user_input u \<noteq> [] \<and> strip (user_input u) \<noteq> [] \<and> CHR 0x0A \<notin> set (user_input u)))
      \<and> strip (user_input u) \<noteq> [])"

text \<open>Lines 147-155: store the user's message and rerun.\<close>

definition send_message ::
  "ui \<Rightarrow> world \<Rightarrow> session_state \<Rightarrow> string \<Rightarrow> message list \<Rightarrow> outcome \<times> world \<times> session_state" where
  "send_message u w ss uid conv =
     (let user_message = \<lparr>role = ''user'', content = strip (user_input u)\<rparr>;
          ss1 = ss\<lparr>conversation := Some (conv @ [user_message])\<rparr>;
          w1 = w\<lparr>db := update_conversation_messages (db w) uid [user_message]\<rparr>;
          ss2 = ss1\<lparr>user_input_key := map_option (\<lambda>k. k + 1) (user_input_key ss1)\<rparr>
      in (Rerun, w1, ss2))"

text \<open>
  Lines 159-173: when the last message is the user's, ask the model (with no provider
  argument), store the reply and rerun.
\<close>

definition respond ::
  "vendor \<Rightarrow> world \<Rightarrow> session_state \<Rightarrow> string \<Rightarrow> message list \<Rightarrow> outcome \<times> world \<times> session_state" where
  "respond llm w ss uid conv =
     (if conv \<noteq> [] \<and> role (last conv) = ''user'' then
        (case get_llm_response llm w (butlast conv) (content (last conv)) None of
           (Inl e, w1) \<Rightarrow> (Raised e, w1, ss)
         | (Inr response_text, w1) \<Rightarrow>
             (let assistant_message = \<lparr>role = ''assistant'', content = response_text\<rparr>;
                  ss1 = ss\<lparr>conversation := Some (conv @ [assistant_message])\<rparr>;
                  w2 = w1\<lparr>db := update_conversation_messages (db w1) uid [assistant_message]\<rparr>
              in (Rerun, w2, ss1)))
      else (Finished, w, ss))"

text \<open>
  One run of \<^verbatim>\<open>main()\<close> (lines 94-173). What the run draws on the page is left
  out; reading an attribute of the session state that was never assigned raises.
\<close>

definition main :: "vendor \<Rightarrow> ui \<Rightarrow> world \<Rightarrow> session_state \<Rightarrow> outcome \<times> world \<times> session_state" where
  "main llm u w ss =
     (case ask_user_id u w ss of
        (True, w1, ss1) \<Rightarrow> (Stopped, w1, ss1)
      | (False, w1, ss1) \<Rightarrow>
          (case user_id ss1 of
             None \<Rightarrow> (Raised (AttributeError ''user_id''), w1, ss1)
           | Some uid \<Rightarrow>
               (case conversation ss1 of
                  None \<Rightarrow> (Raised (AttributeError ''conversation''), w1, ss1)
                | Some conv \<Rightarrow>
                    (let ss2 = (if user_input_key ss1 = None
                                then ss1\<lparr>user_input_key := Some 0\<rparr> else ss1)
                     in if send_triggered u then send_message u w1 ss2 uid conv
                        else respond llm w1 ss2 uid conv))))"

section \<open>Example data\<close>

definition sample_world :: world where
  "sample_world =
     \<lparr>prompts_json = JsonObject [''system_prompt'' \<mapsto> ''You are Tuco.''],
      db = Map.empty, sent = []\<rparr>"

definition sample_vendor :: vendor where
  "sample_vendor req = Inr ['' I hear you. '']"

definition sample_history :: "message list" where
  "sample_history =
     [\<lparr>role = ''user'', content = ''hi''\<rparr>,
      \<lparr>role = ''assistant'', content = ''hello''\<rparr>,
      \<lparr>role = ''system'', content = ''ignored''\<rparr>]"

definition sample_session :: session_state where
  "sample_session =
     \<lparr>user_id = Some ''Sam'',
      conversation = Some [\<lparr>role = ''user'', content = ''I feel stuck''\<rparr>],
      user_input_key = Some 1\<rparr>"

definition sample_ui :: ui where
  "sample_ui = \<lparr>name_input = [], user_input = [], send_button = False\<rparr>"

definition sample_store :: store where
  "sample_store =
     [''Sam'' \<mapsto> \<lparr>conversation_field = Some [\<lparr>role = ''user'', content = ''I feel stuck''\<rparr>],
                   other_fields = Map.empty\<rparr>]"


section \<open>Properties\<close>

lemma anthropic_loop_filter:
  "anthropic_loop acc h = acc @ filter (\<lambda>m. role m = ''user'' \<or> role m = ''assistant'') h"
  by (induction h arbitrary: acc) auto

lemma anthropic_messages_filter:
  "anthropic_messages h t =
     filter (\<lambda>m. role m = ''user'' \<or> role m = ''assistant'') h @ [\<lparr>role = ''user'', content = t\<rparr>]"
  by (simp add: anthropic_messages_def anthropic_loop_filter)

lemma sent_call_vendor: "sent (snd (call_vendor llm w req)) = sent w @ [req]"
  by (simp add: call_vendor_def Let_def split: sum.splits)

lemma db_call_vendor: "db (snd (call_vendor llm w req)) = db w"
  by (simp add: call_vendor_def Let_def split: sum.splits)

lemma db_get_llm_response: "db (snd (get_llm_response llm w h t p)) = db w"
  by (simp add: get_llm_response_def Let_def db_call_vendor split: sum.splits option.splits)

lemma load_JsonObject:
  "pr ''system_prompt'' = Some p \<Longrightarrow> load_system_prompt (JsonObject pr) = Inr p"
  by (simp add: load_system_prompt_def)

text \<open>
  Claim C1. With the provider \<open>anthropic\<close> (given, or left to its default) and a prompt
  that loads, the request sent carries as its messages the messages of the history whose
  role is \<open>user\<close> or \<open>assistant\<close>, in their order, followed by the new user
  message; the system prompt is the separate last argument of the request, and no message
  of the list has another role. On the history of the example the list is the three
  messages expected.
\<close>

theorem anthropic_outgoing_messages:
  assumes "prompts_json w = JsonObject pr" and "pr ''system_prompt'' = Some p"
    and "provider = None \<or> provider = Some ''anthropic''"
  shows "sent (snd (get_llm_response llm w history new_text provider)) =
           sent w @ [Anthropic_Messages ''claude-3-5-sonnet-20241022'' 1000
             (filter (\<lambda>m. role m = ''user'' \<or> role m = ''assistant'') history
                @ [\<lparr>role = ''user'', content = new_text\<rparr>]) p]
         \<and> filter (\<lambda>m. role m \<noteq> ''user'' \<and> role m \<noteq> ''assistant'')
             (anthropic_messages history new_text) = []
         \<and> anthropic_messages sample_history ''how are you'' =
             [\<lparr>role = ''user'', content = ''hi''\<rparr>,
              \<lparr>role = ''assistant'', content = ''hello''\<rparr>,
              \<lparr>role = ''user'', content = ''how are you''\<rparr>]"
proof -
  have load: "load_system_prompt (prompts_json w) = Inr p"
    using assms(1,2) by (simp add: load_JsonObject)
  have "get_llm_response llm w history new_text provider =
          call_vendor llm w (Anthropic_Messages ''claude-3-5-sonnet-20241022'' 1000
             (anthropic_messages history new_text) p)"
    using assms(3) load by (auto simp: get_llm_response_def Let_def)
  then have a: "sent (snd (get_llm_response llm w history new_text provider)) =
           sent w @ [Anthropic_Messages ''claude-3-5-sonnet-20241022'' 1000
             (filter (\<lambda>m. role m = ''user'' \<or> role m = ''assistant'') history
                @ [\<lparr>role = ''user'', content = new_text\<rparr>]) p]"
    by (simp add: sent_call_vendor anthropic_messages_filter)
  have b: "filter (\<lambda>m. role m \<noteq> ''user'' \<and> role m \<noteq> ''assistant'')
             (anthropic_messages history new_text) = []"
    by (auto simp: anthropic_messages_filter filter_empty_conv)
  have c: "anthropic_messages sample_history ''how are you'' =
             [\<lparr>role = ''user'', content = ''hi''\<rparr>,
              \<lparr>role = ''assistant'', content = ''hello''\<rparr>,
              \<lparr>role = ''user'', content = ''how are you''\<rparr>]"
    by (simp add: anthropic_messages_def sample_history_def)
  from a b c show ?thesis by simp
qed

theorem anthropic_outgoing_messages_witness:
  "sent (snd (get_llm_response sample_vendor sample_world sample_history ''how are you'' None)) =
     [Anthropic_Messages ''claude-3-5-sonnet-20241022'' 1000
        [\<lparr>role = ''user'', content = ''hi''\<rparr>,
         \<lparr>role = ''assistant'', content = ''hello''\<rparr>,
         \<lparr>role = ''user'', content = ''how are you''\<rparr>] ''You are Tuco.'']"
  using anthropic_outgoing_messages [of sample_world "[''system_prompt'' \<mapsto> ''You are Tuco.'']"
      "''You are Tuco.''" None sample_vendor sample_history "''how are you''"]
  by (simp add: sample_world_def sample_history_def)

text \<open>
  Claim C2. With the provider \<open>openai\<close> and a prompt that loads, the request sent
  carries one leading system message holding the prompt, then the whole history as it is,
  then the new user message.
\<close>

theorem openai_outgoing_messages:
  assumes "prompts_json w = JsonObject pr" and "pr ''system_prompt'' = Some p"
  shows "sent (snd (get_llm_response llm w history new_text (Some ''openai''))) =
           sent w @ [OpenAI_ChatCompletion ''gpt-4o''
             (\<lparr>role = ''system'', content = p\<rparr> # history
                @ [\<lparr>role = ''user'', content = new_text\<rparr>]) 1]"
proof -
  have load: "load_system_prompt (prompts_json w) = Inr p"
    using assms by (simp add: load_JsonObject)
  then have "get_llm_response llm w history new_text (Some ''openai'') =
          call_vendor llm w (OpenAI_ChatCompletion ''gpt-4o''
             (openai_messages p history new_text) 1)"
    by (simp add: get_llm_response_def Let_def)
  then show ?thesis
    by (simp add: sent_call_vendor openai_messages_def)
qed

theorem openai_outgoing_messages_witness:
  "sent (snd (get_llm_response sample_vendor sample_world sample_history ''how are you''
        (Some ''openai''))) =
     [OpenAI_ChatCompletion ''gpt-4o''
        [\<lparr>role = ''system'', content = ''You are Tuco.''\<rparr>,
         \<lparr>role = ''user'', content = ''hi''\<rparr>,
         \<lparr>role = ''assistant'', content = ''hello''\<rparr>,
         \<lparr>role = ''system'', content = ''ignored''\<rparr>,
         \<lparr>role = ''user'', content = ''how are you''\<rparr>] 1]"
  using openai_outgoing_messages [of sample_world "[''system_prompt'' \<mapsto> ''You are Tuco.'']"
      "''You are Tuco.''" sample_vendor sample_history "''how are you''"]
  by (simp add: sample_world_def sample_history_def)

lemma get_conversation_store: "snd (get_conversation s uid) = s"
  by (simp add: get_conversation_def Let_def)

lemma get_conversation_absent: "s uid = None \<Longrightarrow> fst (get_conversation s uid) = []"
  by (simp add: get_conversation_def Let_def)

lemma get_conversation_iterated:
  "((\<lambda>t. snd (get_conversation t uid)) ^^ n) s = s"
  by (induction n) (simp_all add: get_conversation_store)

text \<open>
  Claim C3. When no record exists for the identifier, \<open>get_conversation\<close> returns the
  empty list and the store unchanged, after any number of earlier reads as well, and the
  record is still absent afterwards.
\<close>

theorem get_conversation_absent_record:
  assumes "s uid = None"
  shows "get_conversation s uid = ([], s)
         \<and> ((\<lambda>t. snd (get_conversation t uid)) ^^ n) s = s
         \<and> get_conversation (((\<lambda>t. snd (get_conversation t uid)) ^^ n) s) uid = ([], s)
         \<and> snd (get_conversation s uid) uid = None"
proof -
  have once: "get_conversation s uid = ([], s)"
    using assms by (simp add: get_conversation_def Let_def)
  have many: "((\<lambda>t. snd (get_conversation t uid)) ^^ n) s = s"
    by (rule get_conversation_iterated)
  from once many assms show ?thesis
    by (simp only: snd_conv simp_thms)
qed

theorem get_conversation_absent_record_witness:
  "get_conversation Map.empty ''Sam'' = ([], Map.empty)
   \<and> get_conversation (((\<lambda>t. snd (get_conversation t ''Sam'')) ^^ 3) Map.empty) ''Sam''
       = ([], Map.empty)"
  using get_conversation_absent_record [of Map.empty "''Sam''" 3]
  by simp

lemma update_lookup_same:
  "update_conversation_messages s uid ms uid =
     Some \<lparr>conversation_field = Some (fst (get_conversation s uid) @ ms),
           other_fields = (case s uid of None \<Rightarrow> Map.empty | Some d \<Rightarrow> other_fields d)\<rparr>"
  by (simp add: update_conversation_messages_def get_conversation_def doc_set_def
      merge_document_def Let_def split: option.splits)

lemma update_lookup_other:
  "k \<noteq> uid \<Longrightarrow> update_conversation_messages s uid ms k = s k"
  by (simp add: update_conversation_messages_def doc_set_def Let_def split: option.splits)

lemma get_after_update:
  "fst (get_conversation (update_conversation_messages s uid ms) uid) =
     fst (get_conversation s uid) @ ms"
  by (simp add: get_conversation_def [of "update_conversation_messages s uid ms"]
      update_lookup_same Let_def)

lemma get_after_fold_update:
  "fst (get_conversation (fold (\<lambda>ms t. update_conversation_messages t uid ms) mss s) uid) =
     fst (get_conversation s uid) @ concat mss"
  by (induction mss arbitrary: s) (simp_all add: get_after_update)

text \<open>
  Claim C4. Appending to an identifier with no record and reading returns the appended
  list; from any store, appending \<open>[a]\<close> then \<open>[b]\<close> and reading returns the former
  conversation followed by \<open>a, b\<close>; and after any sequence of appends a read returns the
  former conversation followed by the appended lists in append order.
\<close>

theorem append_then_read:
  "(s uid = None \<longrightarrow>
      fst (get_conversation (update_conversation_messages s uid ms) uid) = ms)
   \<and> fst (get_conversation
        (update_conversation_messages (update_conversation_messages s uid [a]) uid [b]) uid) =
       fst (get_conversation s uid) @ [a, b]
   \<and> fst (get_conversation
        (fold (\<lambda>ms t. update_conversation_messages t uid ms) mss s) uid) =
       fst (get_conversation s uid) @ concat mss"
  by (simp add: get_after_update get_after_fold_update get_conversation_absent)

theorem append_then_read_witness:
  "fst (get_conversation
     (update_conversation_messages Map.empty ''Sam''
        [\<lparr>role = ''user'', content = ''I feel stuck''\<rparr>,
         \<lparr>role = ''assistant'', content = ''Tell me more''\<rparr>]) ''Sam'') =
     [\<lparr>role = ''user'', content = ''I feel stuck''\<rparr>,
      \<lparr>role = ''assistant'', content = ''Tell me more''\<rparr>]"
  using append_then_read [of Map.empty "''Sam''"
      "[\<lparr>role = ''user'', content = ''I feel stuck''\<rparr>,
        \<lparr>role = ''assistant'', content = ''Tell me more''\<rparr>]"]
  by simp

text \<open>
  Claim C6. On an existing record, \<open>update_conversation_messages\<close> leaves every field
  other than the conversation as it was, and writes the extended conversation; the
  records of other identifiers are not touched.
\<close>

theorem append_keeps_other_fields:
  assumes "s uid = Some d"
  shows "map_option other_fields (update_conversation_messages s uid ms uid) =
           Some (other_fields d)
         \<and> map_option conversation_field (update_conversation_messages s uid ms uid) =
           Some (Some (fst (get_conversation s uid) @ ms))
         \<and> (k \<noteq> uid \<longrightarrow> update_conversation_messages s uid ms k = s k)"
  using assms by (simp add: update_lookup_same update_lookup_other)

theorem append_keeps_other_fields_witness:
  "map_option (\<lambda>d. other_fields d ''mood'')
     (update_conversation_messages
        [''Sam'' \<mapsto> \<lparr>conversation_field = Some [\<lparr>role = ''user'', content = ''hi''\<rparr>],
                      other_fields = [''mood'' \<mapsto> FStr ''calm'']\<rparr>]
        ''Sam'' [\<lparr>role = ''assistant'', content = ''hello''\<rparr>] ''Sam'') =
     Some (Some (FStr ''calm''))
   \<and> update_conversation_messages
        [''Sam'' \<mapsto> \<lparr>conversation_field = Some [\<lparr>role = ''user'', content = ''hi''\<rparr>],
                      other_fields = [''mood'' \<mapsto> FStr ''calm'']\<rparr>]
        ''Sam'' [\<lparr>role = ''assistant'', content = ''hello''\<rparr>] ''Kim'' = None"
  using append_keeps_other_fields
    [where s = "[''Sam'' \<mapsto> \<lparr>conversation_field = Some [\<lparr>role = ''user'', content = ''hi''\<rparr>],
                      other_fields = [''mood'' \<mapsto> FStr ''calm'']\<rparr>]"
       and uid = "''Sam''"
       and d = "\<lparr>conversation_field = Some [\<lparr>role = ''user'', content = ''hi''\<rparr>],
                      other_fields = [''mood'' \<mapsto> FStr ''calm'']\<rparr>"
       and ms = "[\<lparr>role = ''assistant'', content = ''hello''\<rparr>]"
       and k = "''Kim''"]
  by (auto simp: map_option_case split: option.splits)

text \<open>
  Claim C10. \<open>get_conversation\<close> returns the empty list both when the record is absent
  and when the record exists and has no conversation field.
\<close>

theorem get_conversation_missing_field:
  "(s uid = None \<longrightarrow> get_conversation s uid = ([], s))
   \<and> (s uid = Some d \<and> conversation_field d = None \<longrightarrow> get_conversation s uid = ([], s))"
  by (simp add: get_conversation_def Let_def)

theorem get_conversation_missing_field_witness:
  "get_conversation
     [''Sam'' \<mapsto> \<lparr>conversation_field = None, other_fields = [''mood'' \<mapsto> FStr ''calm'']\<rparr>]
     ''Sam'' =
   ([], [''Sam'' \<mapsto> \<lparr>conversation_field = None, other_fields = [''mood'' \<mapsto> FStr ''calm'']\<rparr>])
   \<and> get_conversation
     [''Sam'' \<mapsto> \<lparr>conversation_field = None, other_fields = [''mood'' \<mapsto> FStr ''calm'']\<rparr>]
     ''Kim'' =
   ([], [''Sam'' \<mapsto> \<lparr>conversation_field = None, other_fields = [''mood'' \<mapsto> FStr ''calm'']\<rparr>])"
  using get_conversation_missing_field
    [of "[''Sam'' \<mapsto> \<lparr>conversation_field = None, other_fields = [''mood'' \<mapsto> FStr ''calm'']\<rparr>]"
        "''Sam''" "\<lparr>conversation_field = None, other_fields = [''mood'' \<mapsto> FStr ''calm'']\<rparr>"]
    get_conversation_missing_field
    [of "[''Sam'' \<mapsto> \<lparr>conversation_field = None, other_fields = [''mood'' \<mapsto> FStr ''calm'']\<rparr>]"
        "''Kim''"]
  by simp

lemma load_failure:
  "load_system_prompt (prompts_json w) = Inl e \<Longrightarrow> get_llm_response llm w h t prov = (Inl e, w)"
  by (simp add: get_llm_response_def Let_def)

lemma unsupported_after_load:
  "load_system_prompt (prompts_json w) = Inr sp \<Longrightarrow> p \<noteq> ''openai'' \<Longrightarrow> p \<noteq> ''anthropic'' \<Longrightarrow>
   get_llm_response llm w h t (Some p) = (Inl (ValueError (''Unsupported provider: '' @ p)), w)"
  by (simp add: get_llm_response_def Let_def)

text \<open>
  Claim C5 as stated fails where \<^verbatim>\<open>prompts.json\<close> is missing: the prompt is loaded
  before the provider is looked at, so the error raised for \<open>gemini\<close> is the one of the
  missing file.
\<close>

theorem unsupported_provider_counterexample:
  "get_llm_response sample_vendor \<lparr>prompts_json = NoFile, db = Map.empty, sent = []\<rparr>
      [] ''hello'' (Some ''gemini'') =
     (Inl FileNotFoundError, \<lparr>prompts_json = NoFile, db = Map.empty, sent = []\<rparr>)
   \<and> fst (get_llm_response sample_vendor \<lparr>prompts_json = NoFile, db = Map.empty, sent = []\<rparr>
      [] ''hello'' (Some ''gemini'')) \<noteq> Inl (ValueError ''Unsupported provider: gemini'')"
  by (simp add: get_llm_response_def load_system_prompt_def)

text \<open>
  Claim C5, as amended. For a provider that is neither \<open>openai\<close> nor \<open>anthropic\<close>
  the call returns an error and sends nothing (the world is unchanged): the error of the
  prompt loading when the prompt does not load, the unsupported-provider error otherwise.
\<close>

theorem unsupported_provider:
  assumes "p \<noteq> ''openai''" and "p \<noteq> ''anthropic''"
  shows "snd (get_llm_response llm w h t (Some p)) = w
         \<and> isl (fst (get_llm_response llm w h t (Some p)))
         \<and> (case load_system_prompt (prompts_json w) of
               Inl e \<Rightarrow> fst (get_llm_response llm w h t (Some p)) = Inl e
             | Inr sp \<Rightarrow> fst (get_llm_response llm w h t (Some p)) =
                          Inl (ValueError (''Unsupported provider: '' @ p)))"
proof (cases "load_system_prompt (prompts_json w)")
  case (Inl e)
  then show ?thesis by (simp add: load_failure)
next
  case (Inr sp)
  then show ?thesis using assms by (simp add: unsupported_after_load)
qed

theorem unsupported_provider_witness:
  "get_llm_response sample_vendor sample_world [] ''hello'' (Some ''gemini'') =
     (Inl (ValueError ''Unsupported provider: gemini''), sample_world)"
  using unsupported_provider [of "''gemini''" sample_vendor sample_world "[]" "''hello''"]
  by (simp add: sample_world_def load_system_prompt_def prod_eq_iff)

text \<open>
  Claim C7. A call fails, with the world unchanged, when the file is missing or has no
  \<open>system_prompt\<close> field; and a call reads the file as it is at that call, whatever an
  earlier call has read: with the file removed after a first call the second call fails,
  and with the file replaced the second request carries the new prompt.
\<close>

theorem system_prompt_read_each_call:
  "(prompts_json w = NoFile \<longrightarrow>
      get_llm_response llm w h t prov = (Inl FileNotFoundError, w))
   \<and> (prompts_json w = JsonObject pr \<and> pr ''system_prompt'' = None \<longrightarrow>
      get_llm_response llm w h t prov = (Inl (KeyError ''system_prompt''), w))
   \<and> get_llm_response llm ((snd (get_llm_response llm w h t prov))\<lparr>prompts_json := NoFile\<rparr>)
        h' t' prov' =
      (Inl FileNotFoundError, (snd (get_llm_response llm w h t prov))\<lparr>prompts_json := NoFile\<rparr>)
   \<and> (pr' ''system_prompt'' = Some p' \<longrightarrow>
        last (sent (snd (get_llm_response llm
          ((snd (get_llm_response llm w h t prov))\<lparr>prompts_json := JsonObject pr'\<rparr>)
          h' t' None))) =
        Anthropic_Messages ''claude-3-5-sonnet-20241022'' 1000 (anthropic_messages h' t') p'
      \<and> last (sent (snd (get_llm_response llm
          ((snd (get_llm_response llm w h t prov))\<lparr>prompts_json := JsonObject pr'\<rparr>)
          h' t' (Some ''openai'')))) =
        OpenAI_ChatCompletion ''gpt-4o'' (openai_messages p' h' t') 1)"
proof -
  have a: "prompts_json w = NoFile \<longrightarrow>
      get_llm_response llm w h t prov = (Inl FileNotFoundError, w)"
    by (simp add: load_failure load_system_prompt_def)
  have b: "prompts_json w = JsonObject pr \<and> pr ''system_prompt'' = None \<longrightarrow>
      get_llm_response llm w h t prov = (Inl (KeyError ''system_prompt''), w)"
    by (simp add: load_failure load_system_prompt_def)
  define w1 where "w1 = snd (get_llm_response llm w h t prov)"
  have c: "get_llm_response llm (w1\<lparr>prompts_json := NoFile\<rparr>) h' t' prov' =
      (Inl FileNotFoundError, w1\<lparr>prompts_json := NoFile\<rparr>)"
    by (simp add: load_failure load_system_prompt_def)
  have d: "pr' ''system_prompt'' = Some p' \<longrightarrow>
        last (sent (snd (get_llm_response llm (w1\<lparr>prompts_json := JsonObject pr'\<rparr>) h' t' None))) =
        Anthropic_Messages ''claude-3-5-sonnet-20241022'' 1000 (anthropic_messages h' t') p'
      \<and> last (sent (snd (get_llm_response llm (w1\<lparr>prompts_json := JsonObject pr'\<rparr>) h' t'
            (Some ''openai'')))) =
        OpenAI_ChatCompletion ''gpt-4o'' (openai_messages p' h' t') 1"
    by (simp add: get_llm_response_def Let_def load_JsonObject sent_call_vendor)
  from a b c d show ?thesis unfolding w1_def by blast
qed

theorem system_prompt_read_each_call_witness:
  "fst (get_llm_response sample_vendor sample_world [] ''hello'' None) = Inr ''I hear you.''
   \<and> get_llm_response sample_vendor (sample_world\<lparr>prompts_json := NoFile\<rparr>) [] ''hello'' None =
     (Inl FileNotFoundError, sample_world\<lparr>prompts_json := NoFile\<rparr>)
   \<and> get_llm_response sample_vendor
       ((snd (get_llm_response sample_vendor sample_world [] ''hello'' None))
          \<lparr>prompts_json := JsonObject Map.empty\<rparr>) [] ''hello'' None =
     (Inl (KeyError ''system_prompt''),
      (snd (get_llm_response sample_vendor sample_world [] ''hello'' None))
          \<lparr>prompts_json := JsonObject Map.empty\<rparr>)
   \<and> last (sent (snd (get_llm_response sample_vendor
       ((snd (get_llm_response sample_vendor sample_world [] ''hello'' None))
          \<lparr>prompts_json := JsonObject [''system_prompt'' \<mapsto> ''Listen first.'']\<rparr>)
       [] ''again'' None))) =
     Anthropic_Messages ''claude-3-5-sonnet-20241022'' 1000
       [\<lparr>role = ''user'', content = ''again''\<rparr>] ''Listen first.''"
proof -
  have first: "fst (get_llm_response sample_vendor sample_world [] ''hello'' None) =
      Inr ''I hear you.''"
    by (simp add: get_llm_response_def sample_world_def load_system_prompt_def call_vendor_def
        sample_vendor_def first_text_def strip_def is_space_def Let_def)
  define w1 where "w1 = (snd (get_llm_response sample_vendor sample_world [] ''hello'' None))
          \<lparr>prompts_json := JsonObject Map.empty\<rparr>"
  have w1: "prompts_json w1 = JsonObject Map.empty \<and> Map.empty ''system_prompt'' = None"
    by (simp add: w1_def)
  have second: "get_llm_response sample_vendor w1 [] ''hello'' None =
      (Inl (KeyError ''system_prompt''), w1)"
    using system_prompt_read_each_call [where w = w1 and llm = sample_vendor and h = "[]"
        and t = "''hello''" and prov = None and pr = Map.empty]
      w1 by blast
  have third: "last (sent (snd (get_llm_response sample_vendor
       ((snd (get_llm_response sample_vendor sample_world [] ''hello'' None))
          \<lparr>prompts_json := JsonObject [''system_prompt'' \<mapsto> ''Listen first.'']\<rparr>)
       [] ''again'' None))) =
     Anthropic_Messages ''claude-3-5-sonnet-20241022'' 1000
       [\<lparr>role = ''user'', content = ''again''\<rparr>] ''Listen first.''"
    using system_prompt_read_each_call [where w = sample_world and llm = sample_vendor
        and h = "[]" and t = "''hello''" and prov = None
        and pr' = "[''system_prompt'' \<mapsto> ''Listen first.'']" and p' = "''Listen first.''"
        and h' = "[]" and t' = "''again''"]
    by (simp add: anthropic_messages_def)
  have missing: "get_llm_response sample_vendor (sample_world\<lparr>prompts_json := NoFile\<rparr>)
      [] ''hello'' None = (Inl FileNotFoundError, sample_world\<lparr>prompts_json := NoFile\<rparr>)"
    using system_prompt_read_each_call [where w = "sample_world\<lparr>prompts_json := NoFile\<rparr>"
        and llm = sample_vendor and h = "[]" and t = "''hello''" and prov = None]
    by simp
  from first missing second third show ?thesis unfolding w1_def by simp
qed

lemma ask_user_id_known:
  "user_id ss = Some uid \<Longrightarrow> uid \<noteq> [] \<Longrightarrow> ask_user_id u w ss = (False, w, ss)"
  by (simp add: ask_user_id_def)






text \<open>
  Text made of white space only, also of U+0085 and U+00A0, strips to the empty string and
  triggers no send.
\<close>

lemma strip_white_space_only:
  "strip [CHR 0x20, CHR 0xA0, CHR 0x85, CHR 0x09] = []
   \<and> \<not> send_triggered \<lparr>name_input = [], user_input = [CHR 0xA0], send_button = True\<rparr>"
  by (simp add: strip_def is_space_def send_triggered_def)

lemma ask_user_id_entered:
  assumes "user_id ss = None \<or> user_id ss = Some []" and "name_input u \<noteq> []"
  shows "ask_user_id u w ss =
           (False, w,
            ss\<lparr>user_id := Some (name_input u),
               conversation := Some (fst (get_conversation (db w) (name_input u)))\<rparr>)"
  using assms by (auto simp: ask_user_id_def get_conversation_def Let_def)

lemma main_reaches_reply:
  assumes "ask_user_id u w ss = (False, w, ss1)"
    and "user_id ss1 = Some uid" and "conversation ss1 = Some conv"
    and "\<not> send_triggered u"
  shows "main llm u w ss =
           respond llm w
             (if user_input_key ss1 = None then ss1\<lparr>user_input_key := Some 0\<rparr> else ss1)
             uid conv"
  using assms by (simp add: main_def Let_def)

lemma respond_outcomes:
  assumes "conv \<noteq> []" and "role (last conv) = ''user''"
    and "get_llm_response llm w (butlast conv) (content (last conv)) None = (r, wr)"
  shows "respond llm w ss uid conv =
           (case r of
              Inl e \<Rightarrow> (Raised e, wr, ss)
            | Inr reply \<Rightarrow>
                (Rerun,
                 wr\<lparr>db := update_conversation_messages (db w) uid
                             [\<lparr>role = ''assistant'', content = reply\<rparr>]\<rparr>,
                 ss\<lparr>conversation := Some (conv @ [\<lparr>role = ''assistant'', content = reply\<rparr>])\<rparr>))"
proof -
  have "db wr = db w"
    using db_get_llm_response [of llm w "butlast conv" "content (last conv)" None] assms(3)
    by simp
  then show ?thesis
    using assms by (cases r) (simp_all add: respond_def Let_def)
qed

lemma last_two_roles:
  assumes "conv \<noteq> []" and "role (last conv) = ''user''"
  shows "map role (drop (length conv - 1) (conv @ [\<lparr>role = ''assistant'', content = reply\<rparr>])) =
           [''user'', ''assistant'']"
proof -
  obtain xs x where cv: "conv = xs @ [x]"
    using assms(1) by (cases conv rule: rev_cases) auto
  then show ?thesis using assms(2) by simp
qed

text \<open>
  The scenario of a new identifier \<open>Sam\<close>, run by run: the identifier is entered and an
  empty conversation is loaded; the message is sent and stored.
\<close>

lemma scenario_identify:
  "main sample_vendor \<lparr>name_input = ''Sam'', user_input = [], send_button = False\<rparr>
     sample_world \<lparr>user_id = None, conversation = None, user_input_key = None\<rparr> =
   (Finished, sample_world,
    \<lparr>user_id = Some ''Sam'', conversation = Some [], user_input_key = Some 0\<rparr>)"
  by (simp add: main_def ask_user_id_def get_conversation_def send_triggered_def strip_def
      respond_def sample_world_def Let_def)

lemma scenario_send:
  "main sample_vendor \<lparr>name_input = [], user_input = ''I feel stuck'', send_button = True\<rparr>
     sample_world \<lparr>user_id = Some ''Sam'', conversation = Some [], user_input_key = Some 0\<rparr> =
   (Rerun, sample_world\<lparr>db := sample_store\<rparr>, sample_session)"
  by (simp add: main_def ask_user_id_def send_triggered_def strip_def is_space_def
      send_message_def update_conversation_messages_def doc_set_def sample_world_def
      sample_store_def sample_session_def Let_def)

text \<open>
  Claim C8 as stated fails in a run in which a message is sent: lines 147-155 store the
  user's message and rerun the script before line 159 is reached. Here the conversation
  ends with a user message and a second message is sent: no request goes out, and the
  conversation grows by a user message, not by a reply.
\<close>

theorem session_send_counterexample:
  "main sample_vendor \<lparr>name_input = [], user_input = ''And tired'', send_button = True\<rparr>
     (sample_world\<lparr>db := sample_store\<rparr>) sample_session =
   (Rerun,
    sample_world
      \<lparr>db := update_conversation_messages sample_store ''Sam''
               [\<lparr>role = ''user'', content = ''And tired''\<rparr>]\<rparr>,
    sample_session
      \<lparr>conversation := Some [\<lparr>role = ''user'', content = ''I feel stuck''\<rparr>,
                              \<lparr>role = ''user'', content = ''And tired''\<rparr>],
       user_input_key := Some 2\<rparr>)
   \<and> sent (fst (snd (main sample_vendor
         \<lparr>name_input = [], user_input = ''And tired'', send_button = True\<rparr>
         (sample_world\<lparr>db := sample_store\<rparr>) sample_session))) = []"
  by (simp add: main_def ask_user_id_def send_triggered_def strip_def is_space_def
      send_message_def sample_world_def sample_session_def Let_def)

text \<open>
  Claim C8, as amended. Take a run of \<open>main\<close> that gets to line 159: the identifier is in
  the session with its conversation, or it is entered in this run and the conversation is
  the stored one; and no message is sent in this run. When the conversation is not empty
  and its last message has role \<open>user\<close>, the run is decided by \<open>get_llm_response\<close>,
  called with no provider on all messages but the last and the content of the last. When
  the call raises, the run ends with that error and store and conversation are as before.
  When it returns a reply, the run ends in a rerun, the assistant message is appended to
  the conversation of the session and to the stored conversation, and the conversation of
  the session ends with a user message followed by the assistant message.
\<close>

theorem session_reply_step:
  assumes "(user_id ss = Some uid \<and> conversation ss = Some conv \<and> ss1 = ss)
         \<or> ((user_id ss = None \<or> user_id ss = Some []) \<and> name_input u = uid
              \<and> conv = fst (get_conversation (db w) uid)
              \<and> ss1 = ss\<lparr>user_id := Some uid, conversation := Some conv\<rparr>)"
    and "uid \<noteq> []"
    and "\<not> send_triggered u"
    and "conv \<noteq> []" and "role (last conv) = ''user''"
    and "ss2 = (if user_input_key ss1 = None then ss1\<lparr>user_input_key := Some 0\<rparr> else ss1)"
    and "get_llm_response llm w (butlast conv) (content (last conv)) None = (r, wr)"
  shows "(case r of
            Inl e \<Rightarrow>
              main llm u w ss = (Raised e, wr, ss2)
              \<and> db wr = db w \<and> conversation ss2 = Some conv
          | Inr reply \<Rightarrow>
              main llm u w ss =
                (Rerun,
                 wr\<lparr>db := update_conversation_messages (db w) uid
                             [\<lparr>role = ''assistant'', content = reply\<rparr>]\<rparr>,
                 ss2\<lparr>conversation := Some (conv @ [\<lparr>role = ''assistant'', content = reply\<rparr>])\<rparr>)
              \<and> fst (get_conversation (db (fst (snd (main llm u w ss)))) uid) =
                  fst (get_conversation (db w) uid) @ [\<lparr>role = ''assistant'', content = reply\<rparr>]
              \<and> map role
                   (drop (length conv - 1) (conv @ [\<lparr>role = ''assistant'', content = reply\<rparr>])) =
                  [''user'', ''assistant''])"
proof -
  have ask: "ask_user_id u w ss = (False, w, ss1)"
    using assms(1)
  proof
    assume "user_id ss = Some uid \<and> conversation ss = Some conv \<and> ss1 = ss"
    then show ?thesis using assms(2) by (simp add: ask_user_id_known)
  next
    assume fresh: "(user_id ss = None \<or> user_id ss = Some []) \<and> name_input u = uid
        \<and> conv = fst (get_conversation (db w) uid)
        \<and> ss1 = ss\<lparr>user_id := Some uid, conversation := Some conv\<rparr>"
    then have "ask_user_id u w ss =
        (False, w, ss\<lparr>user_id := Some (name_input u),
           conversation := Some (fst (get_conversation (db w) (name_input u)))\<rparr>)"
      using assms(2) by (intro ask_user_id_entered) auto
    with fresh show ?thesis by simp
  qed
  have uid1: "user_id ss1 = Some uid" and conv1: "conversation ss1 = Some conv"
    using assms(1) by auto
  have conv2: "conversation ss2 = Some conv"
    using conv1 assms(6) by simp
  have dbwr: "db wr = db w"
    using db_get_llm_response [of llm w "butlast conv" "content (last conv)" None] assms(7)
    by simp
  have "main llm u w ss = respond llm w ss2 uid conv"
    using main_reaches_reply [OF ask uid1 conv1 assms(3)] assms(6) by simp
  then have m: "main llm u w ss =
      (case r of
         Inl e \<Rightarrow> (Raised e, wr, ss2)
       | Inr reply \<Rightarrow>
           (Rerun,
            wr\<lparr>db := update_conversation_messages (db w) uid
                        [\<lparr>role = ''assistant'', content = reply\<rparr>]\<rparr>,
            ss2\<lparr>conversation := Some (conv @ [\<lparr>role = ''assistant'', content = reply\<rparr>])\<rparr>))"
    using respond_outcomes [OF assms(4,5,7)] by simp
  show ?thesis
  proof (cases r)
    case (Inl e)
    then show ?thesis using m dbwr conv2 by simp
  next
    case (Inr reply)
    then show ?thesis
      using m last_two_roles [OF assms(4,5)] by (simp add: get_after_update)
  qed
qed

lemma sample_call:
  "get_llm_response sample_vendor (sample_world\<lparr>db := sample_store\<rparr>) [] ''I feel stuck'' None =
     (Inr ''I hear you.'',
      sample_world\<lparr>db := sample_store,
        sent := [Anthropic_Messages ''claude-3-5-sonnet-20241022'' 1000
                   [\<lparr>role = ''user'', content = ''I feel stuck''\<rparr>] ''You are Tuco.'']\<rparr>)"
  by (simp add: get_llm_response_def sample_world_def load_system_prompt_def call_vendor_def
      sample_vendor_def first_text_def strip_def is_space_def Let_def anthropic_messages_def)

lemma sample_call_failing:
  "get_llm_response sample_vendor (sample_world\<lparr>prompts_json := NoFile, db := sample_store\<rparr>)
       [] ''I feel stuck'' None =
     (Inl FileNotFoundError, sample_world\<lparr>prompts_json := NoFile, db := sample_store\<rparr>)"
  by (simp add: get_llm_response_def load_system_prompt_def)

lemma sample_not_sent: "\<not> send_triggered sample_ui"
  by (simp add: send_triggered_def sample_ui_def strip_def)

lemma sample_stored:
  "fst (get_conversation sample_store ''Sam'') = [\<lparr>role = ''user'', content = ''I feel stuck''\<rparr>]"
  by (simp add: get_conversation_def sample_store_def)

theorem session_reply_step_witness:
  "main sample_vendor sample_ui (sample_world\<lparr>db := sample_store\<rparr>) sample_session =
     (Rerun,
      sample_world
        \<lparr>db := update_conversation_messages sample_store ''Sam''
                 [\<lparr>role = ''assistant'', content = ''I hear you.''\<rparr>],
         sent := [Anthropic_Messages ''claude-3-5-sonnet-20241022'' 1000
                   [\<lparr>role = ''user'', content = ''I feel stuck''\<rparr>] ''You are Tuco.'']\<rparr>,
      sample_session
        \<lparr>conversation := Some [\<lparr>role = ''user'', content = ''I feel stuck''\<rparr>,
                                \<lparr>role = ''assistant'', content = ''I hear you.''\<rparr>]\<rparr>)
   \<and> fst (get_conversation
       (db (fst (snd (main sample_vendor sample_ui (sample_world\<lparr>db := sample_store\<rparr>)
          sample_session)))) ''Sam'') =
     [\<lparr>role = ''user'', content = ''I feel stuck''\<rparr>,
      \<lparr>role = ''assistant'', content = ''I hear you.''\<rparr>]
   \<and> main sample_vendor \<lparr>name_input = ''Sam'', user_input = [], send_button = False\<rparr>
       (sample_world\<lparr>db := sample_store\<rparr>)
       \<lparr>user_id = None, conversation = None, user_input_key = None\<rparr> =
     (Rerun,
      sample_world
        \<lparr>db := update_conversation_messages sample_store ''Sam''
                 [\<lparr>role = ''assistant'', content = ''I hear you.''\<rparr>],
         sent := [Anthropic_Messages ''claude-3-5-sonnet-20241022'' 1000
                   [\<lparr>role = ''user'', content = ''I feel stuck''\<rparr>] ''You are Tuco.'']\<rparr>,
      \<lparr>user_id = Some ''Sam'',
       conversation = Some [\<lparr>role = ''user'', content = ''I feel stuck''\<rparr>,
                            \<lparr>role = ''assistant'', content = ''I hear you.''\<rparr>],
       user_input_key = Some 0\<rparr>)
   \<and> main sample_vendor sample_ui (sample_world\<lparr>prompts_json := NoFile, db := sample_store\<rparr>)
       sample_session =
     (Raised FileNotFoundError, sample_world\<lparr>prompts_json := NoFile, db := sample_store\<rparr>,
      sample_session)"
proof -
  let ?u = "\<lparr>role = ''user'', content = ''I feel stuck''\<rparr>"
  let ?sent = "[Anthropic_Messages ''claude-3-5-sonnet-20241022'' 1000 [?u] ''You are Tuco.'']"
  have known: "main sample_vendor sample_ui (sample_world\<lparr>db := sample_store\<rparr>) sample_session =
     (Rerun,
      sample_world
        \<lparr>db := update_conversation_messages sample_store ''Sam''
                 [\<lparr>role = ''assistant'', content = ''I hear you.''\<rparr>],
         sent := ?sent\<rparr>,
      sample_session
        \<lparr>conversation := Some [?u, \<lparr>role = ''assistant'', content = ''I hear you.''\<rparr>]\<rparr>)
   \<and> fst (get_conversation
       (db (fst (snd (main sample_vendor sample_ui (sample_world\<lparr>db := sample_store\<rparr>)
          sample_session)))) ''Sam'') =
     [?u, \<lparr>role = ''assistant'', content = ''I hear you.''\<rparr>]"
    using session_reply_step [where ss = sample_session and uid = "''Sam''"
        and conv = "[?u]" and u = sample_ui and ?ss1.0 = sample_session
        and ?ss2.0 = sample_session
        and llm = sample_vendor and w = "sample_world\<lparr>db := sample_store\<rparr>"
        and r = "Inr ''I hear you.''"
        and wr = "sample_world\<lparr>db := sample_store, sent := ?sent\<rparr>"]
      sample_not_sent sample_call sample_stored
    by (simp add: sample_session_def sample_world_def get_after_update)
  have fresh: "main sample_vendor \<lparr>name_input = ''Sam'', user_input = [], send_button = False\<rparr>
       (sample_world\<lparr>db := sample_store\<rparr>)
       \<lparr>user_id = None, conversation = None, user_input_key = None\<rparr> =
     (Rerun,
      sample_world
        \<lparr>db := update_conversation_messages sample_store ''Sam''
                 [\<lparr>role = ''assistant'', content = ''I hear you.''\<rparr>],
         sent := ?sent\<rparr>,
      \<lparr>user_id = Some ''Sam'',
       conversation = Some [?u, \<lparr>role = ''assistant'', content = ''I hear you.''\<rparr>],
       user_input_key = Some 0\<rparr>)"
    using session_reply_step [where ss = "\<lparr>user_id = None, conversation = None, user_input_key = None\<rparr>"
        and uid = "''Sam''" and conv = "[?u]"
        and u = "\<lparr>name_input = ''Sam'', user_input = [], send_button = False\<rparr>"
        and ?ss1.0 = "\<lparr>user_id = Some ''Sam'', conversation = Some [?u], user_input_key = None\<rparr>"
        and ?ss2.0 = "\<lparr>user_id = Some ''Sam'', conversation = Some [?u], user_input_key = Some 0\<rparr>"
        and llm = sample_vendor and w = "sample_world\<lparr>db := sample_store\<rparr>"
        and r = "Inr ''I hear you.''"
        and wr = "sample_world\<lparr>db := sample_store, sent := ?sent\<rparr>"]
      sample_call sample_stored
    by (simp add: sample_world_def send_triggered_def strip_def)
  have failing: "main sample_vendor sample_ui
       (sample_world\<lparr>prompts_json := NoFile, db := sample_store\<rparr>) sample_session =
     (Raised FileNotFoundError, sample_world\<lparr>prompts_json := NoFile, db := sample_store\<rparr>,
      sample_session)"
    using session_reply_step [where ss = sample_session and uid = "''Sam''"
        and conv = "[?u]" and u = sample_ui and ?ss1.0 = sample_session
        and ?ss2.0 = sample_session
        and llm = sample_vendor
        and w = "sample_world\<lparr>prompts_json := NoFile, db := sample_store\<rparr>"
        and r = "Inl FileNotFoundError"
        and wr = "sample_world\<lparr>prompts_json := NoFile, db := sample_store\<rparr>"]
      sample_not_sent sample_call_failing
    by (simp add: sample_session_def)
  from known fresh failing show ?thesis by blast
qed


end
